theory Spec2Isabelle
  imports Main "HOL-Library.AList"
begin

section \<open>Python values, errors and dictionaries\<close>

text \<open>
  The functions of \<^verbatim>\<open>precomputed_ai_weights.py\<close> are dynamically typed: they test
  their arguments with \<^verbatim>\<open>isinstance\<close> and render them with \<^verbatim>\<open>str\<close> and \<^verbatim>\<open>repr\<close>.
  The values they can receive are modelled by one datatype. \<open>PyObject r\<close> stands for an
  object of any other class (a float, for instance), given by the text \<open>r\<close> that
  \<^verbatim>\<open>repr\<close> and \<^verbatim>\<open>str\<close> return for it: nothing else of such an object is ever used.
  A \<^verbatim>\<open>bool\<close> is an instance of \<^verbatim>\<open>int\<close> in Python, with the values 0 and 1.
\<close>

datatype pyval =
    PyInt int
  | PyBool bool
  | PyNone
  | PyStr string
  | PyObject string
  | PyTuple "pyval list"
  | PyList "pyval list"

text \<open>The exceptions, each with its message: the three that the module raises itself, and
  the \<^verbatim>\<open>OverflowError\<close> that \<^verbatim>\<open>itertools.product\<close> raises for arguments beyond the
  interpreter's index type.\<close>

datatype py_error =
    ValueError string
  | TypeError string
  | KeyError string
  | OverflowError string

text \<open>
  A \<^verbatim>\<open>dict\<close> is an association list in insertion order. \<^verbatim>\<open>d[k] = v\<close> is
  \<^const>\<open>AList.update\<close> (it overwrites in place a key that is present and appends a new
  key), \<^verbatim>\<open>k in d\<close> asks whether \<open>k\<close> is among the keys, \<^verbatim>\<open>d[k]\<close> reads \<^const>\<open>map_of\<close>
  and \<^verbatim>\<open>len(d)\<close> is the length.
\<close>

type_synonym ('k, 'v) dict = "('k \<times> 'v) list"

definition dict_contains :: "('k, 'v) dict \<Rightarrow> 'k \<Rightarrow> bool" where
  "dict_contains d k = (k \<in> fst ` set d)"

text \<open>\<^verbatim>\<open>isinstance(v, int)\<close> together with the integer a value stands for.\<close>

fun int_of :: "pyval \<Rightarrow> int option" where
  "int_of (PyInt i) = Some i"
| "int_of (PyBool b) = Some (if b then 1 else 0)"
| "int_of _ = None"

text \<open>The guard of \<^verbatim>\<open>create_database\<close> passes a value \<open>v\<close> when
  \<^verbatim>\<open>not isinstance(v, int) or v <= 0\<close> is false.\<close>

definition is_positive_int :: "pyval \<Rightarrow> bool" where
  "is_positive_int v = (case int_of v of None \<Rightarrow> False | Some i \<Rightarrow> 0 < i)"

fun isinstance_tuple :: "pyval \<Rightarrow> bool" where
  "isinstance_tuple (PyTuple _) = True"
| "isinstance_tuple _ = False"

section \<open>Rendering values as text\<close>

text \<open>Decimal digits of a natural number, most significant first, as \<^verbatim>\<open>repr\<close> prints them.
  Integers are unbounded, and the interpreter's configurable limit on the number of digits
  of a conversion is left out.\<close>

definition digit_char :: "nat \<Rightarrow> char" where
  "digit_char d = char_of (48 + d)"

function decimal :: "nat \<Rightarrow> string" where
  "decimal n = (if n < 10 then [digit_char n] else decimal (n div 10) @ [digit_char (n mod 10)])"
  by pat_completeness auto
termination
  by (relation "measure id") auto

declare decimal.simps [simp del]

definition repr_int :: "int \<Rightarrow> string" where
  "repr_int i = (if i < 0 then CHR ''-'' # decimal (nat (- i)) else decimal (nat i))"

text \<open>
  \<^verbatim>\<open>repr\<close> of a \<^verbatim>\<open>str\<close> whose code points are below 256: the quote is the double quote
  when the text holds a single quote and no double quote, the single quote otherwise; the
  quote and the backslash are escaped, as are the control characters and the code points
  that are not printable.
\<close>

definition hex_digit :: "nat \<Rightarrow> char" where
  "hex_digit d = (if d < 10 then char_of (48 + d) else char_of (87 + d))"

definition repr_char :: "char \<Rightarrow> char \<Rightarrow> string" where
  "repr_char q c =
     (let n = (of_char c :: nat) in
      if c = q \<or> c = CHR 0x5C then [CHR 0x5C, c]
      else if c = CHR 0x09 then [CHR 0x5C, CHR ''t'']
      else if c = CHR 0x0A then [CHR 0x5C, CHR ''n'']
      else if c = CHR 0x0D then [CHR 0x5C, CHR ''r'']
      else if n < 32 \<or> n = 127 \<or> (128 \<le> n \<and> n \<le> 160) \<or> n = 173
        then [CHR 0x5C, CHR ''x'', hex_digit (n div 16), hex_digit (n mod 16)]
      else [c])"

definition repr_str :: "string \<Rightarrow> string" where
  "repr_str s =
     (let q = (if CHR 0x27 \<in> set s \<and> CHR 0x22 \<notin> set s then CHR 0x22 else CHR 0x27)
      in [q] @ concat (map (repr_char q) s) @ [q])"

text \<open>\<^verbatim>\<open>sep.join(parts)\<close>.\<close>

fun str_join :: "string \<Rightarrow> string list \<Rightarrow> string" where
  "str_join sep [] = []"
| "str_join sep [x] = x"
| "str_join sep (x # y # ys) = x @ sep @ str_join sep (y # ys)"

text \<open>
  \<^verbatim>\<open>repr\<close>: a tuple of one element is \<^verbatim>\<open>(x,)\<close>, any other tuple is its elements
  joined by a comma and a space, in parentheses.
\<close>

fun py_repr :: "pyval \<Rightarrow> string" where
  "py_repr (PyInt i) = repr_int i"
| "py_repr (PyBool b) = (if b then ''True'' else ''False'')"
| "py_repr PyNone = ''None''"
| "py_repr (PyStr s) = repr_str s"
| "py_repr (PyObject r) = r"
| "py_repr (PyTuple xs) =
     (if length xs = 1 then ''('' @ str_join '', '' (map py_repr xs) @ '',)''
      else ''('' @ str_join '', '' (map py_repr xs) @ '')'')"
| "py_repr (PyList xs) = ''['' @ str_join '', '' (map py_repr xs) @ '']''"

text \<open>\<^verbatim>\<open>str\<close>, also what an f-string field prints: the text itself for a \<^verbatim>\<open>str\<close>,
  \<^verbatim>\<open>repr\<close> for every other value of the model.\<close>

fun py_str :: "pyval \<Rightarrow> string" where
  "py_str (PyStr s) = s"
| "py_str v = py_repr v"

text \<open>\<^verbatim>\<open>s.replace(old, new)\<close>: every occurrence of \<open>old\<close>, found from the left without
  overlap; an empty \<open>old\<close> matches before every character and at the end.\<close>

function str_replace :: "string \<Rightarrow> string \<Rightarrow> string \<Rightarrow> string" where
  "str_replace [] old new = (if old = [] then new else [])"
| "str_replace (c # cs) old new =
     (if old = [] then new @ c # str_replace cs old new
      else if take (length old) (c # cs) = old
        then new @ str_replace (drop (length old) (c # cs)) old new
      else c # str_replace cs old new)"
  by pat_completeness auto
termination
  by (relation "measure (\<lambda>(s, old, new). length s)") auto

text \<open>\<^verbatim>\<open>d[k]\<close> on a dictionary with text keys: a missing key raises \<^verbatim>\<open>KeyError\<close>.\<close>

definition dict_getitem :: "(string, 'v) dict \<Rightarrow> string \<Rightarrow> py_error + 'v" where
  "dict_getitem d k = (case map_of d k of Some v \<Rightarrow> Inr v | None \<Rightarrow> Inl (KeyError (repr_str k)))"

section \<open>\<^verbatim>\<open>precomputed_ai_weights.py\<close>\<close>

text \<open>The elements of \<^verbatim>\<open>range(n)\<close>. The range object itself is lazy and is given by its
  bound \<open>n\<close>.\<close>

definition py_range :: "int \<Rightarrow> int list" where
  "py_range n = [0..n - 1]"

text \<open>The tuples that \<^verbatim>\<open>itertools.product\<close> yields for a pool taken \<open>n\<close> times: in
  lexicographic order, the last position changing fastest.\<close>

fun product_tuples :: "'a list \<Rightarrow> nat \<Rightarrow> 'a list list" where
  "product_tuples pool 0 = [[]]"
| "product_tuples pool (Suc n) =
     concat (map (\<lambda>x. map ((#) x) (product_tuples pool n)) pool)"

text \<open>
  The call \<^verbatim>\<open>itertools.product(range(stop), repeat=repeat)\<close> on a 64-bit interpreter, whose
  index type \<^verbatim>\<open>Py_ssize_t\<close> ends at \<open>2 ^ 63 - 1\<close>. Before it yields a tuple, the call
  converts \<open>repeat\<close> to that type, refuses a negative \<open>repeat\<close> and one too large for its
  table of indices (8 bytes each), and copies the range into a tuple, which needs the
  length of the range in that type. Each of these raises at the call, before the loop
  over the tuples starts. The memory of the machine is taken to be unbounded: a
  \<^verbatim>\<open>MemoryError\<close> is left out.
\<close>

definition PY_SSIZE_T_MAX :: int where
  "PY_SSIZE_T_MAX = 2 ^ 63 - 1"

definition itertools_product :: "int \<Rightarrow> int \<Rightarrow> py_error + int list list" where
  "itertools_product stop repeat =
     (if repeat < - PY_SSIZE_T_MAX - 1 \<or> PY_SSIZE_T_MAX < repeat
        then Inl (OverflowError ''Python int too large to convert to C ssize_t'')
      else if repeat < 0 then Inl (ValueError ''repeat argument cannot be negative'')
      else if repeat = 0 then Inr [[]]
      else if PY_SSIZE_T_MAX div 8 div repeat < 1
        then Inl (OverflowError ''repeat argument too large'')
      else if PY_SSIZE_T_MAX < stop
        then Inl (OverflowError ''Python int too large to convert to C ssize_t'')
      else Inr (product_tuples (py_range stop) (nat repeat)))"

text \<open>The inner loop of \<^verbatim>\<open>create_database\<close>: \<^verbatim>\<open>result = 1; for val in inputs: result *= val\<close>.\<close>

definition multiply_result :: "int list \<Rightarrow> int" where
  "multiply_result inputs = fold (\<lambda>val result. result * val) inputs 1"

text \<open>
  The outer loop, \<^verbatim>\<open>for inputs in input_combinations\<close>, over the dictionary being filled.
  It returns the dictionary as it stands when the loop ends, with the exception when
  one was raised.
\<close>

fun create_database_loop ::
  "pyval \<Rightarrow> int list list \<Rightarrow> (int list, int) dict \<Rightarrow> py_error option \<times> (int list, int) dict" where
  "create_database_loop operation [] database = (None, database)"
| "create_database_loop operation (inputs # rest) database =
     (if operation = PyStr ''multiply''
      then create_database_loop operation rest
             (AList.update inputs (multiply_result inputs) database)
      else (Some (ValueError (''Unsupported operation: '' @ py_str operation)), database))"

definition create_database :: "pyval \<Rightarrow> pyval \<Rightarrow> pyval \<Rightarrow> py_error + (int list, int) dict" where
  "create_database num_inputs input_bit_depth operation =
     (case int_of num_inputs of
        None \<Rightarrow> Inl (ValueError ''num_inputs must be a positive integer.'')
      | Some n \<Rightarrow>
          if n \<le> 0 then Inl (ValueError ''num_inputs must be a positive integer.'')
          else
            (case int_of input_bit_depth of
               None \<Rightarrow> Inl (ValueError ''input_bit_depth must be a positive integer.'')
             | Some b \<Rightarrow>
                 if b \<le> 0 then Inl (ValueError ''input_bit_depth must be a positive integer.'')
                 else
                   (let max_input_value = 2 ^ nat b in
                    case itertools_product max_input_value n of
                      Inl e \<Rightarrow> Inl e
                    | Inr input_combinations \<Rightarrow>
                        (case create_database_loop operation input_combinations [] of
                           (Some e, _) \<Rightarrow> Inl e
                         | (None, database) \<Rightarrow> Inr database))))"

definition query_database :: "(string, 'v) dict \<Rightarrow> pyval \<Rightarrow> py_error + 'v" where
  "query_database database input_values =
     (if \<not> isinstance_tuple input_values then Inl (TypeError ''input_values must be a tuple.'')
      else
        (let input_key = py_str input_values in
         if dict_contains database input_key then dict_getitem database input_key
         else
           (let input_key_no_space = str_replace (py_repr input_values) '' '' [] in
            if dict_contains database input_key_no_space
            then dict_getitem database input_key_no_space
            else
              Inl (KeyError (''Input combination '' @ py_str input_values
                             @ '' (searched as '' @ [CHR 0x27] @ input_key @ [CHR 0x27]
                             @ '' and '' @ [CHR 0x27] @ input_key_no_space @ [CHR 0x27]
                             @ '') not found in the database.'')))))"

definition simulate_neuron :: "(string, 'v) dict \<Rightarrow> pyval \<Rightarrow> py_error + 'v" where
  "simulate_neuron database input_values = query_database database input_values"

section \<open>\<^verbatim>\<open>generate_sample_database.py\<close>\<close>

text \<open>The dictionary comprehension of \<^verbatim>\<open>main\<close>:
  \<^verbatim>\<open>{str(key): value for key, value in database_tuple_keys.items()}\<close>.\<close>

definition tuple_of :: "int list \<Rightarrow> pyval" where
  "tuple_of key = PyTuple (map PyInt key)"

definition database_string_keys :: "(int list, int) dict \<Rightarrow> (string, int) dict" where
  "database_string_keys database_tuple_keys =
     fold (\<lambda>(key, v) d. AList.update (py_str (tuple_of key)) v d) database_tuple_keys []"

section \<open>Facts about the building blocks\<close>

lemma fold_mult_prod_list: "fold (\<lambda>val result. result * val) xs (a::int) = a * prod_list xs"
  by (induction xs arbitrary: a) (simp_all add: mult.assoc)

lemma multiply_result_prod_list: "multiply_result inputs = prod_list inputs"
  by (simp add: multiply_result_def fold_mult_prod_list)

lemma set_product_tuples:
  "set (product_tuples pool n) = {ys. length ys = n \<and> set ys \<subseteq> set pool}"
proof (induction n)
  case 0
  then show ?case by auto
next
  case (Suc n)
  show ?case
  proof (rule set_eqI)
    fix ys
    show "ys \<in> set (product_tuples pool (Suc n)) \<longleftrightarrow>
          ys \<in> {ys. length ys = Suc n \<and> set ys \<subseteq> set pool}"
      using Suc by (cases ys) auto
  qed
qed

lemma length_product_tuples: "length (product_tuples pool n) = length pool ^ n"
proof (induction n)
  case 0
  then show ?case by simp
next
  case (Suc n)
  have "length (concat (map (\<lambda>x. map ((#) x) (product_tuples pool n)) pool))
        = length pool * length (product_tuples pool n)"
    by (simp add: length_concat comp_def sum_list_triv)
  with Suc show ?case by simp
qed

lemma distinct_product_tuples:
  "distinct pool \<Longrightarrow> distinct (product_tuples pool n)"
proof (induction n)
  case 0
  then show ?case by simp
next
  case (Suc n)
  then have d: "distinct (product_tuples pool n)" by simp
  show ?case
    unfolding product_tuples.simps
  proof (rule distinct_concat)
    show "distinct (map (\<lambda>x. map ((#) x) (product_tuples pool n)) pool)"
    proof (cases "pool = []")
      case True
      then show ?thesis by simp
    next
      case False
      then have "length (product_tuples pool n) \<noteq> 0"
        by (simp add: length_product_tuples)
      then obtain t ts where Cons: "product_tuples pool n = t # ts"
        by (cases "product_tuples pool n") auto
      have "inj_on (\<lambda>x. map ((#) x) (product_tuples pool n)) (set pool)"
        by (rule inj_onI) (simp add: Cons)
      with Suc.prems show ?thesis by (simp add: distinct_map)
    qed
  next
    fix ys assume "ys \<in> set (map (\<lambda>x. map ((#) x) (product_tuples pool n)) pool)"
    then show "distinct ys" using d by (auto simp: distinct_map)
  next
    fix ys zs
    assume "ys \<in> set (map (\<lambda>x. map ((#) x) (product_tuples pool n)) pool)"
      "zs \<in> set (map (\<lambda>x. map ((#) x) (product_tuples pool n)) pool)" "ys \<noteq> zs"
    then show "set ys \<inter> set zs = {}" by auto
  qed
qed

lemma set_py_range: "set (py_range n) = {0..n - 1}"
  by (simp add: py_range_def)

lemma distinct_py_range: "distinct (py_range n)"
  by (simp add: py_range_def)

lemma length_py_range: "length (py_range n) = nat n"
  by (simp add: py_range_def)

lemma create_database_loop_multiply:
  "create_database_loop (PyStr ''multiply'') cs db =
     (None, fold (\<lambda>inputs d. AList.update inputs (multiply_result inputs) d) cs db)"
  by (induction cs arbitrary: db) simp_all


lemma keys_fold_update:
  "fst ` set (fold (\<lambda>k d. AList.update k (f k) d) cs db) = set cs \<union> fst ` set db"
  by (induction cs arbitrary: db) (auto simp: dom_update)

lemma distinct_fold_update:
  "distinct (map fst db) \<Longrightarrow> distinct (map fst (fold (\<lambda>k d. AList.update k (f k) d) cs db))"
  by (induction cs arbitrary: db) (simp_all add: distinct_update)

lemma map_of_fold_update:
  "map_of (fold (\<lambda>k d. AList.update k (f k) d) cs db) k =
     (if k \<in> set cs then Some (f k) else map_of db k)"
  by (induction cs arbitrary: db) (auto simp: update_conv')



lemma itertools_product_within_limits:
  assumes "0 < repeat" "repeat < 2 ^ 60" "stop \<le> 2 ^ 63 - 1"
  shows "itertools_product stop repeat = Inr (product_tuples (py_range stop) (nat repeat))"
proof -
  have "repeat \<le> 1152921504606846975" using assms(2) by simp
  with assms(1) have "0 < 1152921504606846975 div repeat"
    by (simp add: pos_imp_zdiv_pos_iff)
  then have "\<not> PY_SSIZE_T_MAX div 8 div repeat < 1"
    by (simp add: PY_SSIZE_T_MAX_def)
  with assms show ?thesis
    by (simp add: itertools_product_def) (simp add: PY_SSIZE_T_MAX_def)
qed

lemma itertools_product_overflow:
  assumes "0 < repeat" "2 ^ 60 \<le> repeat \<or> 2 ^ 63 \<le> stop"
  shows "\<exists>msg. itertools_product stop repeat = Inl (OverflowError msg)"
proof (cases "2 ^ 60 \<le> repeat")
  case True
  then have "1152921504606846975 div repeat = 0"
    by (simp add: div_pos_pos_trivial)
  with assms(1) show ?thesis
    by (simp add: itertools_product_def PY_SSIZE_T_MAX_def)
next
  case False
  with assms(2) have "2 ^ 63 \<le> stop" by simp
  with assms(1) show ?thesis
    by (simp add: itertools_product_def PY_SSIZE_T_MAX_def)
qed

lemma power_bit_depth_within_limits:
  assumes "b < 63"
  shows "(2::int) ^ nat b \<le> 2 ^ 63 - 1"
proof -
  from assms have "nat b \<le> 62" by simp
  then have "(2::int) ^ nat b \<le> 2 ^ 62" by (rule power_increasing) simp
  then show ?thesis by simp
qed

lemma create_database_valid:
  assumes "int_of num_inputs = Some n" "0 < n" "n < 2 ^ 60"
    and "int_of input_bit_depth = Some b" "0 < b" "b < 63"
  shows "create_database num_inputs input_bit_depth operation =
     (case create_database_loop operation
             (product_tuples (py_range (2 ^ nat b)) (nat n)) [] of
        (Some e, _) \<Rightarrow> Inl e | (None, database) \<Rightarrow> Inr database)"
proof -
  have "itertools_product (2 ^ nat b) n = Inr (product_tuples (py_range (2 ^ nat b)) (nat n))"
    by (rule itertools_product_within_limits [OF assms(2,3) power_bit_depth_within_limits [OF assms(6)]])
  with assms(1,2,4,5) show ?thesis
    by (simp add: create_database_def)
qed

lemma create_database_overflow:
  assumes "int_of num_inputs = Some n" "0 < n" "int_of input_bit_depth = Some b" "0 < b"
    and "2 ^ 60 \<le> n \<or> 63 \<le> b"
  shows "\<exists>msg. create_database num_inputs input_bit_depth operation = Inl (OverflowError msg)"
proof -
  have "2 ^ 60 \<le> n \<or> (2::int) ^ 63 \<le> 2 ^ nat b"
  proof (cases "63 \<le> b")
    case True
    then have "63 \<le> nat b" by simp
    then have "(2::int) ^ 63 \<le> 2 ^ nat b" by (rule power_increasing) simp
    then show ?thesis by simp
  next
    case False
    with assms(5) show ?thesis by simp
  qed
  from itertools_product_overflow [OF assms(2) this]
  obtain msg where "itertools_product (2 ^ nat b) n = Inl (OverflowError msg)" by blast
  with assms(1-4) show ?thesis
    by (simp add: create_database_def)
qed

lemma create_database_multiply:
  assumes "int_of num_inputs = Some n" "0 < n" "n < 2 ^ 60"
    and "int_of input_bit_depth = Some b" "0 < b" "b < 63"
  shows "create_database num_inputs input_bit_depth (PyStr ''multiply'') =
     Inr (fold (\<lambda>inputs d. AList.update inputs (multiply_result inputs) d)
            (product_tuples (py_range (2 ^ nat b)) (nat n)) [])"
  by (simp add: create_database_valid [OF assms] create_database_loop_multiply)

lemma set_input_combinations:
  "set (product_tuples (py_range (2 ^ k)) m) =
     {t. length t = m \<and> (\<forall>x\<in>set t. 0 \<le> x \<and> x < 2 ^ k)}"
  by (auto simp: set_product_tuples set_py_range)

lemma create_database_not_positive_num_inputs:
  "\<not> is_positive_int num_inputs \<Longrightarrow>
   create_database num_inputs input_bit_depth operation =
     Inl (ValueError ''num_inputs must be a positive integer.'')"
  by (simp add: create_database_def is_positive_int_def split: option.splits)

lemma create_database_not_positive_bit_depth:
  "is_positive_int num_inputs \<Longrightarrow> \<not> is_positive_int input_bit_depth \<Longrightarrow>
   create_database num_inputs input_bit_depth operation =
     Inl (ValueError ''input_bit_depth must be a positive integer.'')"
  by (simp add: create_database_def is_positive_int_def split: option.splits)

section \<open>The table builder\<close>

text \<open>
  C2, as the code has it. For a positive integer \<open>num_inputs\<close> below \<open>2 ^ 60\<close> and a
  positive integer \<open>input_bit_depth\<close> below 63, \<open>create_database\<close> with the operation
  \<open>multiply\<close> returns a dictionary whose keys are exactly the tuples of length
  \<open>num_inputs\<close> with every element in \<open>0 .. 2 ^ input_bit_depth - 1\<close>; each key occurs
  once and there are \<open>(2 ^ input_bit_depth) ^ num_inputs\<close> entries.
\<close>

theorem create_database_key_set:
  assumes "int_of num_inputs = Some n" "0 < n" "n < 2 ^ 60"
    and "int_of input_bit_depth = Some b" "0 < b" "b < 63"
  shows "\<exists>database.
           create_database num_inputs input_bit_depth (PyStr ''multiply'') = Inr database
         \<and> fst ` set database = {t. length t = nat n \<and> (\<forall>x\<in>set t. 0 \<le> x \<and> x < 2 ^ nat b)}
         \<and> distinct (map fst database)
         \<and> length database = (2 ^ nat b) ^ nat n"
proof -
  let ?cs = "product_tuples (py_range (2 ^ nat b)) (nat n)"
  let ?db = "fold (\<lambda>inputs d. AList.update inputs (multiply_result inputs) d) ?cs []"
  have r: "create_database num_inputs input_bit_depth (PyStr ''multiply'') = Inr ?db"
    by (rule create_database_multiply [OF assms])
  have k: "fst ` set ?db = set ?cs"
    by (simp add: keys_fold_update)
  have d: "distinct (map fst ?db)"
    by (rule distinct_fold_update) simp
  have "length ?db = length (map fst ?db)" by simp
  also have "\<dots> = card (set (map fst ?db))"
    using d by (simp only: distinct_card)
  also have "\<dots> = card (set ?cs)"
    using k by simp
  also have "\<dots> = length ?cs"
    by (rule distinct_card) (simp add: distinct_product_tuples distinct_py_range)
  also have "\<dots> = (2 ^ nat b) ^ nat n"
    by (simp add: length_product_tuples length_py_range nat_power_eq)
  finally have l: "length ?db = (2 ^ nat b) ^ nat n" .
  from r k d l show ?thesis
    by (simp only: set_input_combinations) blast
qed

theorem create_database_key_set_witness:
  "int_of (PyInt 2) = Some 2 \<and> (0::int) < 2 \<and> (2::int) < 2 ^ 60
   \<and> int_of (PyInt 1) = Some 1 \<and> (0::int) < 1 \<and> (1::int) < 63
   \<and> (\<exists>database.
           create_database (PyInt 2) (PyInt 1) (PyStr ''multiply'') = Inr database
         \<and> fst ` set database = {t. length t = nat 2 \<and> (\<forall>x\<in>set t. 0 \<le> x \<and> x < 2 ^ nat 1)}
         \<and> distinct (map fst database)
         \<and> length database = (2 ^ nat 1) ^ nat 2)"
  using create_database_key_set [of "PyInt 2" 2 "PyInt 1" 1] by simp

text \<open>
  C2, as the claim states it, fails: for \<open>num_inputs\<close> 1 and \<open>input_bit_depth\<close> 64, both
  positive integers, \<open>create_database\<close> returns no dictionary. The range of \<open>2 ^ 64\<close>
  values is longer than the interpreter's index type allows, and \<^verbatim>\<open>itertools.product\<close>
  raises an \<^verbatim>\<open>OverflowError\<close>. It does so too for \<open>num_inputs\<close> \<open>2 ^ 60\<close>, which is too
  large a \<^verbatim>\<open>repeat\<close>.
\<close>

theorem create_database_key_set_counterexample:
  "int_of (PyInt 1) = Some 1 \<and> (0::int) < 1 \<and> int_of (PyInt 64) = Some 64 \<and> (0::int) < 64
   \<and> create_database (PyInt 1) (PyInt 64) (PyStr ''multiply'') =
       Inl (OverflowError ''Python int too large to convert to C ssize_t'')
   \<and> int_of (PyInt (2 ^ 60)) = Some (2 ^ 60) \<and> (0::int) < 2 ^ 60
   \<and> int_of (PyInt 1) = Some 1 \<and> (0::int) < 1
   \<and> create_database (PyInt (2 ^ 60)) (PyInt 1) (PyStr ''multiply'') =
       Inl (OverflowError ''repeat argument too large'')"
  by (simp add: create_database_def itertools_product_def PY_SSIZE_T_MAX_def)

text \<open>
  C3, as the code has it. For a positive integer \<open>num_inputs\<close> below \<open>2 ^ 60\<close>, a positive
  integer \<open>input_bit_depth\<close> below 63 and every tuple \<open>t\<close> of the input space, the value
  that the built dictionary holds for \<open>t\<close> is the product of the elements of \<open>t\<close>, which
  is 0 when an element is 0.
\<close>

theorem create_database_stores_product:
  assumes "int_of num_inputs = Some n" "0 < n" "n < 2 ^ 60"
    and "int_of input_bit_depth = Some b" "0 < b" "b < 63"
    and "length t = nat n" "\<forall>x\<in>set t. 0 \<le> x \<and> x < 2 ^ nat b"
  shows "\<exists>database.
           create_database num_inputs input_bit_depth (PyStr ''multiply'') = Inr database
         \<and> map_of database t = Some (prod_list t)
         \<and> (0 \<in> set t \<longrightarrow> map_of database t = Some 0)"
proof -
  let ?cs = "product_tuples (py_range (2 ^ nat b)) (nat n)"
  let ?db = "fold (\<lambda>inputs d. AList.update inputs (multiply_result inputs) d) ?cs []"
  have r: "create_database num_inputs input_bit_depth (PyStr ''multiply'') = Inr ?db"
    by (rule create_database_multiply [OF assms(1-6)])
  have "t \<in> set ?cs"
    using assms(7,8) by (simp only: set_input_combinations) simp
  then have m: "map_of ?db t = Some (prod_list t)"
    by (simp add: map_of_fold_update multiply_result_prod_list)
  have "0 \<in> set t \<Longrightarrow> prod_list t = 0"
    by (simp add: prod_list_zero_iff)
  with r m show ?thesis by auto
qed

theorem create_database_stores_product_witness:
  "int_of (PyInt 2) = Some 2 \<and> (0::int) < 2 \<and> (2::int) < 2 ^ 60 \<and> (2::int) < 63
   \<and> length [0, 3 :: int] = nat 2
   \<and> (0::int) \<le> 0 \<and> (0::int) < 2 ^ nat 2 \<and> (0::int) \<le> 3 \<and> (3::int) < 2 ^ nat 2
   \<and> (0::int) \<in> set [0, 3]
   \<and> (\<exists>database.
           create_database (PyInt 2) (PyInt 2) (PyStr ''multiply'') = Inr database
         \<and> map_of database [0, 3] = Some (prod_list [0, 3])
         \<and> map_of database [0, 3] = Some 0)"
  using create_database_stores_product [of "PyInt 2" 2 "PyInt 2" 2 "[0, 3]"] by simp

text \<open>
  C3, as the claim states it, fails: for \<open>num_inputs\<close> 1 and \<open>input_bit_depth\<close> 63 the
  tuple \<open>(0,)\<close> is in the input space, but \<open>create_database\<close> associates no value with it.
  It returns no dictionary: the range of \<open>2 ^ 63\<close> values is one longer than the
  interpreter's index type allows, and \<^verbatim>\<open>itertools.product\<close> raises an
  \<^verbatim>\<open>OverflowError\<close>. It does so too for \<open>num_inputs\<close> \<open>2 ^ 60\<close>, which is too large a
  \<^verbatim>\<open>repeat\<close>.
\<close>

theorem create_database_stores_product_counterexample:
  "int_of (PyInt 1) = Some 1 \<and> (0::int) < 1 \<and> int_of (PyInt 63) = Some 63 \<and> (0::int) < 63
   \<and> length [0 :: int] = nat 1 \<and> (0::int) \<le> 0 \<and> (0::int) < 2 ^ nat 63
   \<and> create_database (PyInt 1) (PyInt 63) (PyStr ''multiply'') =
       Inl (OverflowError ''Python int too large to convert to C ssize_t'')
   \<and> create_database (PyInt (2 ^ 60)) (PyInt 2) (PyStr ''multiply'') =
       Inl (OverflowError ''repeat argument too large'')"
  by (simp add: create_database_def itertools_product_def PY_SSIZE_T_MAX_def)




text \<open>
  C7. \<open>create_database\<close> fails with one of its two invalid-argument \<open>ValueError\<close>s whenever
  \<open>num_inputs\<close> or \<open>input_bit_depth\<close> is not a positive integer, whatever the operation:
  so for \<open>num_inputs\<close> 0 or -1, for \<open>input_bit_depth\<close> 0, and for values that are not
  integers.
\<close>

theorem create_database_invalid_argument:
  assumes "\<not> is_positive_int num_inputs \<or> \<not> is_positive_int input_bit_depth"
  shows "create_database num_inputs input_bit_depth operation =
           Inl (ValueError ''num_inputs must be a positive integer.'')
       \<or> create_database num_inputs input_bit_depth operation =
           Inl (ValueError ''input_bit_depth must be a positive integer.'')"
proof (cases "is_positive_int num_inputs")
  case True
  with assms have "\<not> is_positive_int input_bit_depth" by simp
  with True show ?thesis
    by (simp add: create_database_not_positive_bit_depth)
next
  case False
  then show ?thesis
    by (simp add: create_database_not_positive_num_inputs)
qed

theorem create_database_invalid_argument_witness:
  "\<not> is_positive_int (PyInt 0) \<and> \<not> is_positive_int (PyInt (- 1))
   \<and> \<not> is_positive_int (PyObject ''1.5'') \<and> \<not> is_positive_int (PyStr ''2'')
   \<and> create_database (PyInt 0) (PyInt 1) (PyStr ''multiply'') =
        Inl (ValueError ''num_inputs must be a positive integer.'')
   \<and> create_database (PyInt (- 1)) (PyInt 1) (PyStr ''multiply'') =
        Inl (ValueError ''num_inputs must be a positive integer.'')
   \<and> create_database (PyInt 2) (PyInt 0) (PyStr ''multiply'') =
        Inl (ValueError ''input_bit_depth must be a positive integer.'')
   \<and> create_database (PyObject ''1.5'') (PyInt 1) (PyStr ''multiply'') =
        Inl (ValueError ''num_inputs must be a positive integer.'')
   \<and> create_database (PyInt 2) (PyStr ''2'') (PyStr ''multiply'') =
        Inl (ValueError ''input_bit_depth must be a positive integer.'')"
  using create_database_invalid_argument [of "PyInt 0" "PyInt 1" "PyStr ''multiply''"]
    create_database_invalid_argument [of "PyInt (- 1)" "PyInt 1" "PyStr ''multiply''"]
    create_database_invalid_argument [of "PyInt 2" "PyInt 0" "PyStr ''multiply''"]
    create_database_invalid_argument [of "PyObject ''1.5''" "PyInt 1" "PyStr ''multiply''"]
    create_database_invalid_argument [of "PyInt 2" "PyStr ''2''" "PyStr ''multiply''"]
  by (simp add: create_database_def is_positive_int_def)

text \<open>
  C10. The two parameters are checked, \<open>num_inputs\<close> first, before the operation is looked
  at: when a parameter is not a positive integer and the operation is not \<open>multiply\<close>,
  the error is the invalid-argument \<open>ValueError\<close> of the first offending parameter, and
  not the unsupported-operation \<open>ValueError\<close>.
\<close>

theorem create_database_validation_order:
  assumes "\<not> is_positive_int num_inputs \<or> \<not> is_positive_int input_bit_depth"
    and "operation \<noteq> PyStr ''multiply''"
  shows "create_database num_inputs input_bit_depth operation =
           Inl (ValueError (if \<not> is_positive_int num_inputs
                            then ''num_inputs must be a positive integer.''
                            else ''input_bit_depth must be a positive integer.''))
       \<and> create_database num_inputs input_bit_depth operation \<noteq>
           Inl (ValueError (''Unsupported operation: '' @ py_str operation))"
proof (cases "is_positive_int num_inputs")
  case True
  with assms(1) have "\<not> is_positive_int input_bit_depth" by simp
  with True show ?thesis
    by (simp add: create_database_not_positive_bit_depth)
next
  case False
  then show ?thesis
    by (simp add: create_database_not_positive_num_inputs)
qed

theorem create_database_validation_order_witness:
  "\<not> is_positive_int (PyInt 0) \<and> \<not> is_positive_int (PyObject ''1.5'')
   \<and> PyStr ''add'' \<noteq> PyStr ''multiply''
   \<and> create_database (PyInt 0) (PyInt 0) (PyStr ''add'') =
        Inl (ValueError ''num_inputs must be a positive integer.'')
   \<and> create_database (PyInt 2) (PyObject ''1.5'') (PyStr ''add'') =
        Inl (ValueError ''input_bit_depth must be a positive integer.'')
   \<and> create_database (PyInt 0) (PyInt 0) (PyStr ''add'') \<noteq>
        Inl (ValueError ''Unsupported operation: add'')"
  using create_database_validation_order [of "PyInt 0" "PyInt 0" "PyStr ''add''"]
    create_database_validation_order [of "PyInt 2" "PyObject ''1.5''" "PyStr ''add''"]
  by (simp add: is_positive_int_def)

section \<open>Query and simulation\<close>

lemma digit_char_numerals:
  "digit_char 0 = CHR ''0''" "digit_char 1 = CHR ''1''" "digit_char 2 = CHR ''2''"
  "digit_char 3 = CHR ''3''" "digit_char 4 = CHR ''4''" "digit_char 5 = CHR ''5''"
  "digit_char 6 = CHR ''6''" "digit_char 7 = CHR ''7''" "digit_char 8 = CHR ''8''"
  "digit_char 9 = CHR ''9''"
  by code_simp+

lemma repr_int_numerals:
  "repr_int 0 = ''0''" "repr_int 1 = ''1''" "repr_int 2 = ''2''" "repr_int 3 = ''3''"
  by code_simp+

lemma str_replace_space: "str_replace s '' '' [] = filter (\<lambda>c. c \<noteq> CHR '' '') s"
  by (induction s) simp_all

lemma dict_contains_map_of: "dict_contains d k \<longleftrightarrow> map_of d k \<noteq> None"
  by (simp add: dict_contains_def map_of_eq_None_iff)

lemma dict_lookup:
  "(if dict_contains d k then dict_getitem d k else e) =
     (case map_of d k of Some v \<Rightarrow> Inr v | None \<Rightarrow> e)"
  by (simp add: dict_contains_map_of dict_getitem_def split: option.splits)

lemma py_repr_tuple:
  "py_repr (PyTuple xs) =
     ''('' @ str_join '', '' (map py_repr xs) @ (if length xs = 1 then '',)'' else '')'')"
  by simp

text \<open>
  C8. \<open>simulate_neuron\<close> passes its arguments to \<open>query_database\<close> and returns what it
  returns: the same value when the query succeeds, the same \<open>TypeError\<close> or \<open>KeyError\<close>
  when it fails.
\<close>

theorem simulate_neuron_is_query_database:
  "simulate_neuron database input_values = query_database database input_values"
  by (simp add: simulate_neuron_def)

theorem simulate_neuron_is_query_database_witness:
  "simulate_neuron [(''(1, 1)'', 1 :: int)] (PyTuple [PyInt 1, PyInt 1]) = Inr 1
   \<and> simulate_neuron [(''(1, 1)'', 1 :: int)] (PyInt 1) =
       Inl (TypeError ''input_values must be a tuple.'')
   \<and> simulate_neuron ([] :: (string, int) dict) (PyTuple []) =
       query_database [] (PyTuple [])"
  using simulate_neuron_is_query_database [of "[(''(1, 1)'', 1 :: int)]" "PyTuple [PyInt 1, PyInt 1]"]
    simulate_neuron_is_query_database [of "[(''(1, 1)'', 1 :: int)]" "PyInt 1"]
    simulate_neuron_is_query_database [of "[] :: (string, int) dict" "PyTuple []"]
  by (simp add: query_database_def dict_contains_def dict_getitem_def repr_int_numerals)

text \<open>
  C4. For every dictionary with text keys and every tuple, \<open>query_database\<close> returns the
  value stored under the rendering of the tuple with a comma and a space between the
  elements when that key is present; otherwise the value stored under that rendering
  with its spaces removed when that key is present; otherwise it fails with a
  \<open>KeyError\<close> whose message holds the tuple and both keys.
\<close>

theorem query_database_two_stage_lookup:
  "query_database database (PyTuple xs) =
     (let primary = ''('' @ str_join '', '' (map py_repr xs)
                        @ (if length xs = 1 then '',)'' else '')'');
          secondary = filter (\<lambda>c. c \<noteq> CHR '' '') primary
      in case map_of database primary of
           Some v \<Rightarrow> Inr v
         | None \<Rightarrow>
             (case map_of database secondary of
                Some v \<Rightarrow> Inr v
              | None \<Rightarrow>
                  Inl (KeyError (''Input combination '' @ primary
                                 @ '' (searched as '' @ [CHR 0x27] @ primary @ [CHR 0x27]
                                 @ '' and '' @ [CHR 0x27] @ secondary @ [CHR 0x27]
                                 @ '') not found in the database.''))))"
  unfolding query_database_def Let_def dict_lookup str_replace_space
  by (simp only: py_str.simps py_repr_tuple isinstance_tuple.simps not_True_eq_False if_False)

theorem query_database_two_stage_lookup_witness:
  "query_database [(''(1, 1)'', 5), (''(1,1)'', 1 :: int)] (PyTuple [PyInt 1, PyInt 1]) = Inr 5
   \<and> query_database [(''(1,1)'', 1 :: int)] (PyTuple [PyInt 1, PyInt 1]) = Inr 1
   \<and> query_database [(''(1,1)'', 1 :: int)] (PyTuple [PyInt 2, PyInt 0]) =
       Inl (KeyError (''Input combination (2, 0) (searched as '' @ [CHR 0x27] @ ''(2, 0)''
                      @ [CHR 0x27] @ '' and '' @ [CHR 0x27] @ ''(2,0)'' @ [CHR 0x27]
                      @ '') not found in the database.''))"
  using query_database_two_stage_lookup [of "[(''(1, 1)'', 5), (''(1,1)'', 1 :: int)]" "[PyInt 1, PyInt 1]"]
    query_database_two_stage_lookup [of "[(''(1,1)'', 1 :: int)]" "[PyInt 1, PyInt 1]"]
    query_database_two_stage_lookup [of "[(''(1,1)'', 1 :: int)]" "[PyInt 2, PyInt 0]"]
  by (simp add: repr_int_numerals)

text \<open>
  C5, as the code has it. \<open>query_database\<close> fails with its \<open>TypeError\<close> exactly when
  \<open>input_values\<close> is not a tuple. The elements of a tuple are not inspected: every tuple,
  whatever its elements, goes on to the two lookups and never fails with a \<open>TypeError\<close>.
\<close>

theorem query_database_type_error:
  "(\<not> isinstance_tuple input_values \<longrightarrow>
      query_database database input_values = Inl (TypeError ''input_values must be a tuple.''))
   \<and> (isinstance_tuple input_values \<longrightarrow>
      (\<forall>msg. query_database database input_values \<noteq> Inl (TypeError msg)))"
proof (cases input_values)
  case (PyTuple xs)
  have "query_database database (PyTuple xs) \<noteq> Inl (TypeError msg)" for msg
    unfolding query_database_def Let_def dict_lookup
    by (simp split: option.splits)
  with PyTuple show ?thesis by simp
qed (simp_all add: query_database_def)

theorem query_database_type_error_witness:
  "\<not> isinstance_tuple (PyList [PyInt 0, PyInt 1])
   \<and> query_database [(''(0, 1)'', 0 :: int)] (PyList [PyInt 0, PyInt 1]) =
       Inl (TypeError ''input_values must be a tuple.'')
   \<and> isinstance_tuple (PyTuple [PyStr ''a''])
   \<and> (\<forall>msg. query_database [(''(0, 1)'', 0 :: int)] (PyTuple [PyStr ''a'']) \<noteq>
         Inl (TypeError msg))"
  using query_database_type_error [of "PyList [PyInt 0, PyInt 1]" "[(''(0, 1)'', 0 :: int)]"]
    query_database_type_error [of "PyTuple [PyStr ''a'']" "[(''(0, 1)'', 0 :: int)]"]
  by simp

text \<open>
  C5, as the claim states it, fails: the tuple \<open>(None,)\<close> is not a sequence of integers,
  yet \<open>query_database\<close> does not raise a \<open>TypeError\<close> for it. It goes on to the lookup,
  which returns the value stored under the key \<open>(None,)\<close>, and fails with a
  \<open>KeyError\<close> on an empty dictionary.
\<close>

theorem query_database_type_error_counterexample:
  "int_of PyNone = None
   \<and> query_database [(''(None,)'', 7 :: int)] (PyTuple [PyNone]) = Inr 7
   \<and> query_database ([] :: (string, int) dict) (PyTuple [PyNone]) \<noteq>
       Inl (TypeError ''input_values must be a tuple.'')"
  by (simp add: query_database_def dict_contains_def dict_getitem_def)

section \<open>The rendering of integer tuples is injective\<close>

lemma of_char_digit_char: "d < 10 \<Longrightarrow> of_char (digit_char d) = 48 + d"
  by (simp add: digit_char_def)

lemma decimal_nonempty: "decimal n \<noteq> []"
  by (subst decimal.simps) simp

lemma decimal_digits: "c \<in> set (decimal n) \<Longrightarrow> 48 \<le> (of_char c :: nat) \<and> (of_char c :: nat) \<le> 57"
proof (induction n rule: decimal.induct)
  case (1 n)
  show ?case
  proof (cases "n < 10")
    case True
    with "1.prems" have "c = digit_char n"
      by (subst (asm) decimal.simps) simp
    with True show ?thesis by (simp add: of_char_digit_char)
  next
    case False
    with "1.prems" have "c \<in> set (decimal (n div 10)) \<or> c = digit_char (n mod 10)"
      by (subst (asm) decimal.simps) auto
    then show ?thesis
    proof
      assume "c \<in> set (decimal (n div 10))"
      with False "1.IH" show ?thesis by simp
    next
      assume "c = digit_char (n mod 10)"
      then show ?thesis by (simp add: of_char_digit_char)
    qed
  qed
qed

lemma decimal_inj: "decimal n = decimal m \<Longrightarrow> n = m"
proof (induction n arbitrary: m rule: decimal.induct)
  case (1 n)
  show ?case
  proof (cases "n < 10")
    case True
    then have n: "decimal n = [digit_char n]" by (subst decimal.simps) simp
    show ?thesis
    proof (cases "m < 10")
      case True
      then have "decimal m = [digit_char m]" by (subst decimal.simps) simp
      with n "1.prems" have "(of_char (digit_char n) :: nat) = of_char (digit_char m)" by simp
      with \<open>n < 10\<close> True show ?thesis by (simp add: of_char_digit_char)
    next
      case False
      then have "decimal m = decimal (m div 10) @ [digit_char (m mod 10)]"
        by (subst decimal.simps) simp
      with n "1.prems" have "decimal (m div 10) = []" by simp
      then show ?thesis by (simp add: decimal_nonempty)
    qed
  next
    case False
    then have n: "decimal n = decimal (n div 10) @ [digit_char (n mod 10)]"
      by (subst decimal.simps) simp
    show ?thesis
    proof (cases "m < 10")
      case True
      then have "decimal m = [digit_char m]" by (subst decimal.simps) simp
      with n "1.prems" have "decimal (n div 10) = []" by simp
      then show ?thesis by (simp add: decimal_nonempty)
    next
      case m: False
      then have "decimal m = decimal (m div 10) @ [digit_char (m mod 10)]"
        by (subst decimal.simps) simp
      with n "1.prems" have a: "decimal (n div 10) = decimal (m div 10)"
        and b: "digit_char (n mod 10) = digit_char (m mod 10)" by simp_all
      from a have q: "n div 10 = m div 10" by (rule "1.IH" [OF False])
      from b have "(of_char (digit_char (n mod 10)) :: nat) = of_char (digit_char (m mod 10))"
        by simp
      then have r: "n mod 10 = m mod 10" by (simp add: of_char_digit_char)
      have "n = 10 * (n div 10) + n mod 10" by simp
      also have "\<dots> = 10 * (m div 10) + m mod 10" using q r by simp
      also have "\<dots> = m" by simp
      finally show ?thesis .
    qed
  qed
qed

lemma repr_int_nonempty: "repr_int i \<noteq> []"
  by (simp add: repr_int_def decimal_nonempty)

lemma repr_int_chars:
  "c \<in> set (repr_int i) \<Longrightarrow> (of_char c :: nat) = 45 \<or> (48 \<le> (of_char c :: nat) \<and> (of_char c :: nat) \<le> 57)"
  by (auto simp: repr_int_def dest: decimal_digits split: if_splits)

lemma repr_int_inj: "repr_int i = repr_int j \<Longrightarrow> i = j"
proof -
  assume e: "repr_int i = repr_int j"
  have neg: "decimal n \<noteq> CHR ''-'' # s" for n s
  proof
    assume "decimal n = CHR ''-'' # s"
    then have "CHR ''-'' \<in> set (decimal n)" by simp
    then have "48 \<le> (of_char (CHR ''-'') :: nat)" by (rule decimal_digits [THEN conjunct1])
    then show False by simp
  qed
  show ?thesis
  proof (cases "i < 0")
    case True
    show ?thesis
    proof (cases "j < 0")
      case j: True
      with True e have "decimal (nat (- i)) = decimal (nat (- j))" by (simp add: repr_int_def)
      then have "nat (- i) = nat (- j)" by (rule decimal_inj)
      with True j show ?thesis by simp
    next
      case False
      with True e have "decimal (nat j) = CHR ''-'' # decimal (nat (- i))"
        by (simp add: repr_int_def)
      with neg show ?thesis by blast
    qed
  next
    case False
    show ?thesis
    proof (cases "j < 0")
      case True
      with False e have "decimal (nat i) = CHR ''-'' # decimal (nat (- j))"
        by (simp add: repr_int_def)
      with neg show ?thesis by blast
    next
      case j: False
      with False e have "decimal (nat i) = decimal (nat j)" by (simp add: repr_int_def)
      then have "nat i = nat j" by (rule decimal_inj)
      with False j show ?thesis by simp
    qed
  qed
qed

lemma numeric_prefix_unique:
  assumes a: "\<And>c. c \<in> set a \<Longrightarrow> P c" and b: "\<And>c. c \<in> set b \<Longrightarrow> P c"
    and s: "s = c1 # s'" "\<not> P c1" and t: "t = c2 # t'" "\<not> P c2"
    and e: "a @ s = b @ t"
  shows "a = b \<and> s = t"
proof -
  have "takeWhile P (a @ s) = a" using a s by simp
  moreover have "takeWhile P (b @ t) = b" using b t by simp
  ultimately have "a = b" using e by simp
  with e show ?thesis by simp
qed

lemma str_join_Cons:
  "str_join sep (x # xs) = (if xs = [] then x else x @ sep @ str_join sep xs)"
  by (cases xs) simp_all

lemma py_str_tuple_of:
  "py_str (tuple_of xs) =
     ''('' @ str_join '', '' (map repr_int xs) @ (if length xs = 1 then '',)'' else '')'')"
  by (simp add: tuple_of_def comp_def)

lemma repr_int_prefix_unique:
  assumes s: "s = c1 # s'" "c1 = CHR '','' \<or> c1 = CHR '')''"
    and t: "t = c2 # t'" "c2 = CHR '','' \<or> c2 = CHR '')''"
    and e: "repr_int x @ s = repr_int y @ t"
  shows "x = y \<and> s = t"
proof -
  let ?P = "\<lambda>c. (of_char c :: nat) = 45 \<or> (48 \<le> (of_char c :: nat) \<and> (of_char c :: nat) \<le> 57)"
  have c1: "\<not> ?P c1" using s(2) by auto
  have c2: "\<not> ?P c2" using t(2) by auto
  have "repr_int x = repr_int y \<and> s = t"
    by (rule numeric_prefix_unique [where P = ?P, OF _ _ s(1) c1 t(1) c2 e])
       (erule repr_int_chars)+
  then show ?thesis by (simp add: repr_int_inj)
qed

lemma str_join_repr_int_inj:
  assumes "xs \<noteq> []" "ys \<noteq> []"
    and "e1 = '')'' \<or> e1 = '',)''" "e2 = '')'' \<or> e2 = '',)''"
    and "str_join '', '' (map repr_int xs) @ e1 = str_join '', '' (map repr_int ys) @ e2"
  shows "xs = ys \<and> e1 = e2"
  using assms
proof (induction xs arbitrary: ys)
  case Nil
  then show ?case by simp
next
  case (Cons x xs)
  from Cons.prems(2) obtain y ys' where ys: "ys = y # ys'" by (cases ys) auto
  let ?r1 = "if xs = [] then e1 else '', '' @ str_join '', '' (map repr_int xs) @ e1"
  let ?r2 = "if ys' = [] then e2 else '', '' @ str_join '', '' (map repr_int ys') @ e2"
  have eq: "repr_int x @ ?r1 = repr_int y @ ?r2"
    using Cons.prems(5) unfolding ys by (auto simp: str_join_Cons split: if_splits)
  have h1: "\<exists>c s'. ?r1 = c # s' \<and> (c = CHR '','' \<or> c = CHR '')'')"
    using Cons.prems(3) by auto
  have h2: "\<exists>c s'. ?r2 = c # s' \<and> (c = CHR '','' \<or> c = CHR '')'')"
    using Cons.prems(4) by auto
  from h1 obtain c1 s1 where r1: "?r1 = c1 # s1" "c1 = CHR '','' \<or> c1 = CHR '')''" by blast
  from h2 obtain c2 s2 where r2: "?r2 = c2 # s2" "c2 = CHR '','' \<or> c2 = CHR '')''" by blast
  from repr_int_prefix_unique [OF r1 r2 eq] have xy: "x = y" and rr: "?r1 = ?r2" by simp_all
  show ?case
  proof (cases "xs = []")
    case True
    show ?thesis
    proof (cases "ys' = []")
      case y: True
      with True rr xy ys show ?thesis by simp
    next
      case False
      with True rr have "e1 = '', '' @ str_join '', '' (map repr_int ys') @ e2" by simp
      with Cons.prems(3) show ?thesis by auto
    qed
  next
    case False
    show ?thesis
    proof (cases "ys' = []")
      case True
      with False rr have "e2 = '', '' @ str_join '', '' (map repr_int xs) @ e1" by simp
      with Cons.prems(4) show ?thesis by auto
    next
      case y: False
      with False rr have "str_join '', '' (map repr_int xs) @ e1
          = str_join '', '' (map repr_int ys') @ e2" by simp
      from Cons.IH [OF False y Cons.prems(3,4) this] xy ys show ?thesis by simp
    qed
  qed
qed

lemma str_join_repr_int_head:
  assumes "xs \<noteq> []"
  shows "\<exists>c s. str_join '', '' (map repr_int xs) = c # s \<and> c \<noteq> CHR '')''"
proof -
  from assms obtain x xs' where xs: "xs = x # xs'" by (cases xs) auto
  obtain c r where r: "repr_int x = c # r"
    using repr_int_nonempty [of x] by (cases "repr_int x") auto
  then have "c \<in> set (repr_int x)" by simp
  then have "(of_char c :: nat) = 45 \<or> (48 \<le> (of_char c :: nat) \<and> (of_char c :: nat) \<le> 57)"
    by (rule repr_int_chars)
  then have "c \<noteq> CHR '')''" by auto
  with r xs show ?thesis by (simp add: str_join_Cons)
qed

lemma py_str_tuple_of_inj: "py_str (tuple_of xs) = py_str (tuple_of ys) \<Longrightarrow> xs = ys"
proof -
  let ?e = "\<lambda>zs :: int list. if length zs = 1 then '',)'' else '')''"
  assume "py_str (tuple_of xs) = py_str (tuple_of ys)"
  then have e: "str_join '', '' (map repr_int xs) @ ?e xs = str_join '', '' (map repr_int ys) @ ?e ys"
    by (simp only: py_str_tuple_of append_same_eq same_append_eq)
  show ?thesis
  proof (cases "xs = []")
    case True
    show ?thesis
    proof (cases "ys = []")
      case y: True
      with True show ?thesis by simp
    next
      case False
      from str_join_repr_int_head [OF False] obtain c s
        where "str_join '', '' (map repr_int ys) = c # s" "c \<noteq> CHR '')''" by blast
      with True e show ?thesis by simp
    qed
  next
    case False
    show ?thesis
    proof (cases "ys = []")
      case True
      from str_join_repr_int_head [OF False] obtain c s
        where "str_join '', '' (map repr_int xs) = c # s" "c \<noteq> CHR '')''" by blast
      with True e show ?thesis by simp
    next
      case y: False
      have "xs = ys \<and> ?e xs = ?e ys"
        by (rule str_join_repr_int_inj [OF False y _ _ e]) simp_all
      then show ?thesis by simp
    qed
  qed
qed

section \<open>Serialization and the round trip\<close>

lemma keys_fold_update_key:
  "fst ` set (fold (\<lambda>(k, v) d. AList.update (f k) v d) db acc) = f ` fst ` set db \<union> fst ` set acc"
proof (induction db arbitrary: acc)
  case Nil
  then show ?case by simp
next
  case (Cons p db)
  obtain k v where p: "p = (k, v)" by (cases p)
  have "fst ` set (fold (\<lambda>(k, v) d. AList.update (f k) v d) (p # db) acc) =
          f ` fst ` set db \<union> fst ` set (AList.update (f k) v acc)"
    unfolding p by (simp add: Cons.IH)
  also have "\<dots> = f ` fst ` set (p # db) \<union> fst ` set acc"
    unfolding p dom_update by auto
  finally show ?case .
qed

lemma distinct_fold_update_key:
  "distinct (map fst acc) \<Longrightarrow>
   distinct (map fst (fold (\<lambda>(k, v) d. AList.update (f k) v d) db acc))"
  by (induction db arbitrary: acc) (auto simp: distinct_update)

lemma map_of_fold_update_key:
  assumes "inj f"
  shows "map_of (fold (\<lambda>(k, v) d. AList.update (f k) v d) db acc) (f k) =
     (case map_of (rev db) k of Some v \<Rightarrow> Some v | None \<Rightarrow> map_of acc (f k))"
proof (induction db arbitrary: acc)
  case Nil
  then show ?case by simp
next
  case (Cons p db)
  obtain k' v' where p: "p = (k', v')" by (cases p)
  have "f k = f k' \<longleftrightarrow> k = k'" using assms by (auto dest: injD)
  then show ?case
    unfolding p by (simp add: Cons.IH update_conv' map_add_def split: option.splits)
qed

lemma map_of_rev_distinct: "distinct (map fst xs) \<Longrightarrow> map_of (rev xs) = map_of xs"
proof (induction xs)
  case Nil
  then show ?case by simp
next
  case (Cons p xs)
  obtain k v where p: "p = (k, v)" by (cases p)
  from Cons.prems have "map_of xs k = None"
    unfolding p by (simp add: map_of_eq_None_iff)
  with Cons show ?case
    unfolding p by (auto simp: map_add_def fun_eq_iff split: option.splits)
qed

lemma inj_py_str_tuple_of: "inj (\<lambda>t. py_str (tuple_of t))"
  by (rule injI) (rule py_str_tuple_of_inj)

lemma map_of_database_string_keys:
  "distinct (map fst database) \<Longrightarrow>
   map_of (database_string_keys database) (py_str (tuple_of t)) = map_of database t"
  unfolding database_string_keys_def
  by (simp add: map_of_fold_update_key [OF inj_py_str_tuple_of] map_of_rev_distinct
      split: option.splits)

lemma distinct_database_string_keys: "distinct (map fst (database_string_keys database))"
  unfolding database_string_keys_def by (rule distinct_fold_update_key) simp

lemma length_database_string_keys:
  assumes "distinct (map fst database)"
  shows "length (database_string_keys database) = length database"
proof -
  let ?f = "\<lambda>t. py_str (tuple_of t)"
  have "length (database_string_keys database) = length (map fst (database_string_keys database))"
    by simp
  also have "\<dots> = card (set (map fst (database_string_keys database)))"
    using distinct_database_string_keys by (simp only: distinct_card)
  also have "\<dots> = card (?f ` fst ` set database)"
    by (simp add: database_string_keys_def keys_fold_update_key)
  also have "\<dots> = card (fst ` set database)"
    by (rule card_image) (rule inj_on_subset [OF inj_py_str_tuple_of], simp)
  also have "\<dots> = card (set (map fst database))" by simp
  also have "\<dots> = length (map fst database)"
    using assms by (simp only: distinct_card)
  finally show ?thesis by simp
qed

lemma create_database_loop_distinct:
  "distinct (map fst db) \<Longrightarrow> distinct (map fst (snd (create_database_loop operation cs db)))"
proof (cases "operation = PyStr ''multiply''")
  case True
  assume "distinct (map fst db)"
  then show ?thesis
    unfolding True create_database_loop_multiply by (simp add: distinct_fold_update)
next
  case False
  assume "distinct (map fst db)"
  with False show ?thesis by (cases cs) simp_all
qed

lemma create_database_distinct:
  assumes "create_database num_inputs input_bit_depth operation = Inr database"
  shows "distinct (map fst database)"
proof -
  from assms obtain cs where "create_database_loop operation cs [] = (None, database)"
    by (auto simp: create_database_def Let_def
        split: option.splits if_splits prod.splits sum.splits)
  then have "database = snd (create_database_loop operation cs [])" by simp
  then show ?thesis by (simp add: create_database_loop_distinct)
qed

text \<open>
  C9. The rendering of a tuple as text is a total function that is injective on the
  tuples of non-negative integers, so the dictionary with text keys made from a built
  dictionary has as many entries as it, its keys are distinct, and the text of a tuple
  leads to the value the built dictionary holds for that tuple.
\<close>

theorem serialization_lossless:
  "inj_on (\<lambda>t. py_str (tuple_of t)) {t. \<forall>x\<in>set t. 0 \<le> x}
   \<and> (create_database num_inputs input_bit_depth operation = Inr database \<longrightarrow>
        length (database_string_keys database) = length database
      \<and> distinct (map fst (database_string_keys database))
      \<and> (\<forall>t. map_of (database_string_keys database) (py_str (tuple_of t)) = map_of database t))"
proof (intro conjI impI)
  show "inj_on (\<lambda>t. py_str (tuple_of t)) {t. \<forall>x\<in>set t. 0 \<le> x}"
    by (rule inj_on_subset [OF inj_py_str_tuple_of]) simp
next
  assume "create_database num_inputs input_bit_depth operation = Inr database"
  then have d: "distinct (map fst database)" by (rule create_database_distinct)
  then show "length (database_string_keys database) = length database"
    by (rule length_database_string_keys)
  show "distinct (map fst (database_string_keys database))"
    by (rule distinct_database_string_keys)
  show "\<forall>t. map_of (database_string_keys database) (py_str (tuple_of t)) = map_of database t"
    using d by (simp add: map_of_database_string_keys)
qed

lemma create_database_2_1:
  "create_database (PyInt 2) (PyInt 1) (PyStr ''multiply'') =
     Inr [([0, 0], 0), ([0, 1], 0), ([1, 0], 0), ([1, 1], 1)]"
  by code_simp

theorem serialization_lossless_witness:
  "(0::int) \<le> 1 \<and> (0::int) \<le> 12 \<and> (0::int) \<le> 11 \<and> (0::int) \<le> 2
   \<and> py_str (tuple_of [1, 12]) \<noteq> py_str (tuple_of [11, 2])
   \<and> create_database (PyInt 2) (PyInt 1) (PyStr ''multiply'') =
        Inr [([0, 0], 0), ([0, 1], 0), ([1, 0], 0), ([1, 1], 1)]
   \<and> length (database_string_keys [([0, 0], 0), ([0, 1], 0), ([1, 0], 0), ([1, 1], 1)]) = 4
   \<and> map_of (database_string_keys [([0, 0], 0), ([0, 1], 0), ([1, 0], 0), ([1, 1], 1)])
        (py_str (tuple_of [1, 1])) = Some 1"
proof -
  note w = serialization_lossless [of "PyInt 2" "PyInt 1" "PyStr ''multiply''"
      "[([0, 0], 0), ([0, 1], 0), ([1, 0], 0), ([1, 1], 1)]"]
  from w have i: "inj_on (\<lambda>t. py_str (tuple_of t)) {t. \<forall>x\<in>set t. 0 \<le> x}" by (rule conjunct1)
  have "py_str (tuple_of [1, 12]) \<noteq> py_str (tuple_of [11, 2])"
  proof
    assume "py_str (tuple_of [1, 12]) = py_str (tuple_of [11, 2])"
    with i have "[1, 12 :: int] = [11, 2]" by (rule inj_onD) simp_all
    then show False by simp
  qed
  with w show ?thesis by (simp add: create_database_2_1)
qed

text \<open>
  C1, as the code has it. For a positive integer \<open>num_inputs\<close> below \<open>2 ^ 60\<close>, a positive
  integer \<open>input_bit_depth\<close> below 63 and every tuple \<open>t\<close> of the input space, querying with
  \<open>t\<close> the dictionary with text keys made from the built dictionary returns the product
  of the elements of \<open>t\<close>.
\<close>

theorem query_round_trip:
  assumes "int_of num_inputs = Some n" "0 < n" "n < 2 ^ 60"
    and "int_of input_bit_depth = Some b" "0 < b" "b < 63"
    and "length t = nat n" "\<forall>x\<in>set t. 0 \<le> x \<and> x < 2 ^ nat b"
  shows "\<exists>database.
           create_database num_inputs input_bit_depth (PyStr ''multiply'') = Inr database
         \<and> query_database (database_string_keys database) (tuple_of t) = Inr (prod_list t)"
proof -
  let ?cs = "product_tuples (py_range (2 ^ nat b)) (nat n)"
  let ?db = "fold (\<lambda>inputs d. AList.update inputs (multiply_result inputs) d) ?cs []"
  have r: "create_database num_inputs input_bit_depth (PyStr ''multiply'') = Inr ?db"
    by (rule create_database_multiply [OF assms(1-6)])
  then have d: "distinct (map fst ?db)" by (rule create_database_distinct)
  have "t \<in> set ?cs"
    using assms(7,8) by (simp only: set_input_combinations) simp
  then have "map_of ?db t = Some (prod_list t)"
    by (simp add: map_of_fold_update multiply_result_prod_list)
  with d have m: "map_of (database_string_keys ?db) (py_str (tuple_of t)) = Some (prod_list t)"
    by (simp only: map_of_database_string_keys)
  have "query_database (database_string_keys ?db) (tuple_of t) = Inr (prod_list t)"
    unfolding query_database_def Let_def dict_lookup
    by (simp add: m) (simp add: tuple_of_def)
  with r show ?thesis by blast
qed

theorem query_round_trip_witness:
  "int_of (PyInt 2) = Some 2 \<and> (0::int) < 2 \<and> (2::int) < 2 ^ 60
   \<and> int_of (PyInt 1) = Some 1 \<and> (0::int) < 1 \<and> (1::int) < 63
   \<and> length [1, 1 :: int] = nat 2 \<and> (0::int) \<le> 1 \<and> (1::int) < 2 ^ nat 1
   \<and> query_database
        (database_string_keys [([0, 0], 0), ([0, 1], 0), ([1, 0], 0), ([1, 1], 1)])
        (tuple_of [1, 1]) = Inr 1"
  using query_round_trip [of "PyInt 2" 2 "PyInt 1" 1 "[1, 1]"]
  by (simp add: create_database_2_1)

text \<open>
  C1, as the claim states it, fails: for \<open>num_inputs\<close> 2 and \<open>input_bit_depth\<close> 64 the
  tuple \<open>(1, 1)\<close> is in the input space, but there is no built table to serialize and
  query. \<open>create_database\<close> fails: the range of \<open>2 ^ 64\<close> values is longer than the
  interpreter's index type allows, and \<^verbatim>\<open>itertools.product\<close> raises an
  \<^verbatim>\<open>OverflowError\<close>. It does so too for \<open>num_inputs\<close> \<open>2 ^ 60\<close>, which is too large a
  \<^verbatim>\<open>repeat\<close>.
\<close>

theorem query_round_trip_counterexample:
  "int_of (PyInt 2) = Some 2 \<and> (0::int) < 2 \<and> int_of (PyInt 64) = Some 64 \<and> (0::int) < 64
   \<and> length [1, 1 :: int] = nat 2 \<and> (0::int) \<le> 1 \<and> (1::int) < 2 ^ nat 64
   \<and> create_database (PyInt 2) (PyInt 64) (PyStr ''multiply'') =
       Inl (OverflowError ''Python int too large to convert to C ssize_t'')
   \<and> create_database (PyInt (2 ^ 60)) (PyInt 3) (PyStr ''multiply'') =
       Inl (OverflowError ''repeat argument too large'')"
  by (simp add: create_database_def itertools_product_def PY_SSIZE_T_MAX_def)

end
